theory Spec2Isabelle
  imports Main "HOL-Library.AList"
begin

section \<open>JavaScript values and the object heap\<close>

text \<open>
  The form engine (class \<open>FormState\<close>, \<open>useChildForm\<close> and \<open>ArrayField\<close> of the
  example application) is generic over user data, so the model carries a small universe
  of JavaScript values. Objects and arrays live in a heap and are referred to by address:
  \<open>===\<close> on two references compares addresses, on primitives it compares the values.
  Numbers are restricted to integers (no \<open>NaN\<close>, no fractions), so \<open>===\<close> and \<open>!==\<close> are
  equality and inequality of \<open>val\<close>.
\<close>

datatype val = Undefined | Null | Bool bool | Num int | Str string | Ref nat

text \<open>
  A property key is a canonical array index or any other string. An array index used as a
  key (\<open>values[1]\<close>) and its decimal string (\<open>values["1"]\<close>) are the same key \<open>Idx 1\<close>.
\<close>

datatype key = Idx nat | Name string

datatype kind = ArrayK | ObjectK

text \<open>
  A heap object is its own enumerable properties in insertion order, with a flag for
  \<open>Array.isArray\<close>. The length of an array is one more than its largest index (arrays with
  trailing holes are not represented); inherited properties are not modelled.
\<close>

datatype obj = JObj (okind: kind) (props: "(key \<times> val) list")

record heap =
  cells :: "nat \<Rightarrow> obj"
  top :: nat

definition alloc :: "obj \<Rightarrow> heap \<Rightarrow> nat \<times> heap" where
  "alloc ob h = (top h, h\<lparr>cells := (cells h)(top h := ob), top := Suc (top h)\<rparr>)"

definition truthy :: "val \<Rightarrow> bool" where
  "truthy v = (case v of Undefined \<Rightarrow> False | Null \<Rightarrow> False | Bool b \<Rightarrow> b
     | Num n \<Rightarrow> n \<noteq> 0 | Str s \<Rightarrow> s \<noteq> [] | Ref a \<Rightarrow> True)"

definition nullish :: "val \<Rightarrow> bool" where
  "nullish v = (v = Undefined \<or> v = Null)"

text \<open>\<open>typeof v === 'object'\<close>: true for \<open>null\<close> and for every reference.\<close>

definition typeof_object :: "val \<Rightarrow> bool" where
  "typeof_object v = (case v of Null \<Rightarrow> True | Ref a \<Rightarrow> True | _ \<Rightarrow> False)"

definition isArray :: "heap \<Rightarrow> val \<Rightarrow> bool" where
  "isArray h v = (case v of Ref a \<Rightarrow> okind (cells h a) = ArrayK | _ \<Rightarrow> False)"

fun idx_keys :: "(key \<times> 'a) list \<Rightarrow> nat list" where
  "idx_keys [] = []"
| "idx_keys ((Idx i, x) # ps) = i # idx_keys ps"
| "idx_keys ((Name s, x) # ps) = idx_keys ps"

fun name_keys :: "(key \<times> 'a) list \<Rightarrow> key list" where
  "name_keys [] = []"
| "name_keys ((Idx i, x) # ps) = name_keys ps"
| "name_keys ((Name s, x) # ps) = Name s # name_keys ps"

text \<open>
  \<open>Object.keys\<close> enumerates the index keys in ascending order, then the other keys in
  insertion order.
\<close>

definition own_keys :: "(key \<times> 'a) list \<Rightarrow> key list" where
  "own_keys ps = map Idx (sort (idx_keys ps)) @ name_keys ps"

definition object_keys :: "heap \<Rightarrow> val \<Rightarrow> key list" where
  "object_keys h v = (case v of Ref a \<Rightarrow> own_keys (props (cells h a))
     | Str s \<Rightarrow> map Idx [0..<length s] | _ \<Rightarrow> [])"

text \<open>
  A property read \<open>o[k]\<close>. The class reads only from containers it has checked to be
  truthy and from error maps; an index into a string yields the character, any other
  read from a primitive yields \<open>undefined\<close>.
\<close>

definition js_get :: "heap \<Rightarrow> val \<Rightarrow> key \<Rightarrow> val" where
  "js_get h v k = (case v of
       Ref a \<Rightarrow> (case map_of (props (cells h a)) k of Some x \<Rightarrow> x | None \<Rightarrow> Undefined)
     | Str s \<Rightarrow> (case k of Idx i \<Rightarrow> if i < length s then Str [s ! i] else Undefined
                  | Name n \<Rightarrow> Undefined)
     | _ \<Rightarrow> Undefined)"

datatype error = Thrown string | TypeError string | OutOfFuel

text \<open>
  A property write \<open>o[k] = x\<close>. Class bodies are strict code: writing to a primitive, to
  \<open>null\<close> or to \<open>undefined\<close> raises a \<open>TypeError\<close>.
\<close>

definition set_prop :: "val \<Rightarrow> key \<Rightarrow> val \<Rightarrow> heap \<Rightarrow> error + heap" where
  "set_prop v k x h = (case v of
       Ref a \<Rightarrow> Inr (h\<lparr>cells := (cells h)
                 (a := JObj (okind (cells h a)) (AList.update k x (props (cells h a))))\<rparr>)
     | _ \<Rightarrow> Inl (TypeError ''cannot set property''))"

text \<open>\<open>delete o[k]\<close>: removes an own property; on \<open>null\<close> or \<open>undefined\<close> it raises.\<close>

definition delete_prop :: "val \<Rightarrow> key \<Rightarrow> heap \<Rightarrow> error + heap" where
  "delete_prop v k h = (case v of
       Ref a \<Rightarrow> Inr (h\<lparr>cells := (cells h)
                 (a := JObj (okind (cells h a)) (AList.delete k (props (cells h a))))\<rparr>)
     | Undefined \<Rightarrow> Inl (TypeError ''cannot convert undefined or null to object'')
     | Null \<Rightarrow> Inl (TypeError ''cannot convert undefined or null to object'')
     | Str s \<Rightarrow> (case k of Idx i \<Rightarrow> if i < length s
                     then Inl (TypeError ''cannot delete property'') else Inr h
                  | Name n \<Rightarrow> Inr h)
     | _ \<Rightarrow> Inr h)"

text \<open>The elements \<open>[...o]\<close> of an array and an array built from a list of elements.\<close>

definition array_length :: "(key \<times> val) list \<Rightarrow> nat" where
  "array_length ps = fold max (map Suc (idx_keys ps)) 0"

definition elems :: "obj \<Rightarrow> val list" where
  "elems ob = map (\<lambda>i. case map_of (props ob) (Idx i) of Some x \<Rightarrow> x | None \<Rightarrow> Undefined)
     [0..<array_length (props ob)]"

definition array_of :: "val list \<Rightarrow> obj" where
  "array_of xs = JObj ArrayK (zip (map Idx [0..<length xs]) xs)"

text \<open>The own properties \<open>{...o}\<close> of a value, in enumeration order.\<close>

definition spread_props :: "heap \<Rightarrow> val \<Rightarrow> (key \<times> val) list" where
  "spread_props h v = map (\<lambda>k. (k, js_get h v k)) (object_keys h v)"

text \<open>
  \<open>memberCopy\<close> "clones only the lower-most object": an array is copied element by
  element, anything else of type object by its own properties (\<open>null\<close> gives \<open>{}\<close>),
  and every other value is rejected.
\<close>

definition memberCopy :: "val \<Rightarrow> heap \<Rightarrow> error + (val \<times> heap)" where
  "memberCopy v h = (case v of
       Ref a \<Rightarrow>
         (if okind (cells h a) = ArrayK
          then (let (b, h') = alloc (array_of (elems (cells h a))) h in Inr (Ref b, h'))
          else (let (b, h') = alloc (JObj ObjectK (spread_props h v)) h in Inr (Ref b, h')))
     | Null \<Rightarrow> (let (b, h') = alloc (JObj ObjectK []) h in Inr (Ref b, h'))
     | _ \<Rightarrow> Inl (Thrown ''Can only member-copy arrays and objects.''))"

section \<open>Nodes, listeners and the world\<close>

text \<open>
  Listener callbacks are closures; the model names the closures the program creates.
  \<open>Render\<close> is a user-interface binding (\<open>useListener\<close>, \<open>useAnyListener\<close>,
  \<open>useFormValue\<close>): it only reads the node and schedules a re-render. \<open>PushDown\<close> and
  \<open>PushUp\<close> are the two closures of \<open>useChildForm\<close>; they capture the parent, the
  child, the field name and the other closure's subscription id (the variable \<open>id\<close> of
  \<open>PushDown\<close> is assigned only after the closure has been registered, hence the option).
  The remaining constructors are client callbacks that call the registry from inside a
  dispatch.
\<close>

datatype callback =
    Render
  | PushDown nat nat key "nat option"
  | PushUp nat nat key nat
  | CallIgnore nat key nat
  | CallIgnoreAny nat nat
  | CallListen nat key callback
  | CallListenAny nat callback

datatype fstate = FState (isSubmitting: bool)

text \<open>
  A \<open>FormState\<close> instance. Subscription ids are the decimal strings of the static
  counter; the model keeps the number (the rendering is injective, and \<open>Object.keys\<close>
  enumerates such keys in ascending numeric order). The \<open>dirty\<close> object is created and
  replaced only by the class itself, so it is kept inline; \<open>values\<close> (here \<open>values_f\<close>),
  \<open>defaultValues\<close> and \<open>errors\<close> are supplied by callers and are references into the
  heap. The validator takes the values and may allocate its result.
\<close>

record node =
  formId :: nat
  values_f :: val
  defaultValues :: val
  dirty :: "(key \<times> bool) list"
  errors :: val
  state :: fstate
  validate :: "val \<Rightarrow> heap \<Rightarrow> val \<times> heap"
  listeners :: "(key \<times> (nat \<times> callback) list) list"
  anyListeners :: "(nat \<times> callback) list"

text \<open>
  The world: the heap, the \<open>FormState\<close> instances by handle, the static counter
  \<open>FormState.currentId\<close>, the console, and a record of every listener invocation
  (subscription id and argument) in order. The last is an observation of the run and is
  read by no operation. The counter is a JavaScript number, which counts exactly up to
  \<open>2^53\<close>; the model takes a natural number.
\<close>

record world =
  heap :: heap
  nodes :: "nat \<Rightarrow> node"
  nnodes :: nat
  currentId :: nat
  console :: "string list"
  calls :: "(nat \<times> bool) list"

type_synonym runner = "callback \<Rightarrow> bool \<Rightarrow> world \<Rightarrow> error + world"

definition upd_node :: "nat \<Rightarrow> (node \<Rightarrow> node) \<Rightarrow> world \<Rightarrow> world" where
  "upd_node n f w = w\<lparr>nodes := (nodes w)(n := f (nodes w n))\<rparr>"

definition warn :: "string \<Rightarrow> world \<Rightarrow> world" where
  "warn msg w = w\<lparr>console := console w @ [msg]\<rparr>"

definition default_validate :: "val \<Rightarrow> heap \<Rightarrow> val \<times> heap" where
  "default_validate v h = (let (a, h') = alloc (JObj ObjectK []) h in (Ref a, h'))"

section \<open>The listener registry of a node\<close>

text \<open>\<open>Object.keys\<close> of a map keyed by subscription ids: ascending ids.\<close>

definition listener_ids :: "(nat \<times> 'a) list \<Rightarrow> nat list" where
  "listener_ids m = sort (map fst m)"

definition listen :: "nat \<Rightarrow> key \<Rightarrow> callback \<Rightarrow> world \<Rightarrow> nat \<times> world" where
  "listen n k listener w =
     (let setters = (case map_of (listeners (nodes w n)) k of Some s \<Rightarrow> s | None \<Rightarrow> []);
          i = currentId w
      in (i, upd_node n
               (\<lambda>nd. nd\<lparr>listeners := AList.update k (AList.update i listener setters) (listeners nd)\<rparr>)
               (w\<lparr>currentId := Suc i\<rparr>)))"

definition listenAny :: "nat \<Rightarrow> callback \<Rightarrow> world \<Rightarrow> nat \<times> world" where
  "listenAny n listener w =
     (let i = currentId w
      in (i, upd_node n (\<lambda>nd. nd\<lparr>anyListeners := AList.update i listener (anyListeners nd)\<rparr>)
               (w\<lparr>currentId := Suc i\<rparr>)))"

definition ignoreAny :: "nat \<Rightarrow> nat \<Rightarrow> world \<Rightarrow> world" where
  "ignoreAny n i w = upd_node n (\<lambda>nd. nd\<lparr>anyListeners := AList.delete i (anyListeners nd)\<rparr>) w"

definition ignore :: "nat \<Rightarrow> key \<Rightarrow> nat \<Rightarrow> world \<Rightarrow> world" where
  "ignore n k i w = (case map_of (listeners (nodes w n)) k of
       None \<Rightarrow> warn ''Ignore was called for no reason'' w
     | Some setters \<Rightarrow>
         upd_node n (\<lambda>nd. nd\<lparr>listeners := AList.update k (AList.delete i setters) (listeners nd)\<rparr>) w)"

fun forEach :: "('a \<Rightarrow> world \<Rightarrow> error + world) \<Rightarrow> 'a list \<Rightarrow> world \<Rightarrow> error + world" where
  "forEach f [] w = Inr w"
| "forEach f (x # xs) w = (case f x w of Inl e \<Rightarrow> Inl e | Inr w' \<Rightarrow> forEach f xs w')"

text \<open>
  The call \<open>m[id](arg)\<close>: the callback is looked up in the map as it is now; calling a
  missing entry (\<open>undefined\<close>) raises a \<open>TypeError\<close>. Each call is recorded.
\<close>

definition invoke :: "runner \<Rightarrow> (nat \<times> callback) list \<Rightarrow> nat \<Rightarrow> bool \<Rightarrow> world \<Rightarrow> error + world" where
  "invoke rn m i arg w = (case map_of m i of
       None \<Rightarrow> Inl (TypeError ''listeners[id] is not a function'')
     | Some cb \<Rightarrow> rn cb arg (w\<lparr>calls := calls w @ [(i, arg)]\<rparr>))"

definition settersOf :: "world \<Rightarrow> nat \<Rightarrow> key \<Rightarrow> (nat \<times> callback) list" where
  "settersOf w n k = (case map_of (listeners (nodes w n)) k of Some s \<Rightarrow> s | None \<Rightarrow> [])"

definition fireListener :: "runner \<Rightarrow> nat \<Rightarrow> key \<Rightarrow> bool \<Rightarrow> nat option \<Rightarrow> world \<Rightarrow> error + world" where
  "fireListener rn n k isDefault skipId w = (case map_of (listeners (nodes w n)) k of
       None \<Rightarrow> Inr w
     | Some l \<Rightarrow>
         forEach (\<lambda>i w'. if Some i \<noteq> skipId then invoke rn (settersOf w' n k) i isDefault w'
                         else Inr w')
           (listener_ids l) w)"

definition fireAllNormalListeners :: "runner \<Rightarrow> nat \<Rightarrow> bool \<Rightarrow> nat option \<Rightarrow> world \<Rightarrow> error + world" where
  "fireAllNormalListeners rn n isDefault skipId w =
     forEach (\<lambda>k w'. fireListener rn n k isDefault skipId w')
       (object_keys (heap w) (values_f (nodes w n))) w"

definition fireAnyListeners :: "runner \<Rightarrow> nat \<Rightarrow> bool \<Rightarrow> nat option \<Rightarrow> world \<Rightarrow> error + world" where
  "fireAnyListeners rn n setValuesWasUsed skipId w =
     forEach (\<lambda>i w'. if Some i \<noteq> skipId
                     then invoke rn (anyListeners (nodes w' n)) i setValuesWasUsed w'
                     else Inr w')
       (listener_ids (anyListeners (nodes w n))) w"

section \<open>The state node\<close>

definition newFormState :: "val \<Rightarrow> val \<Rightarrow> world \<Rightarrow> error + (nat \<times> world)" where
  "newFormState initialValues dflt w =
     (if \<not> truthy dflt \<or> \<not> truthy initialValues
      then Inl (Thrown ''FormState.constructor: initialValues or defaultValues is null'')
      else (let (e, h1) = alloc (JObj ObjectK []) (heap w);
                n = nnodes w;
                nd = \<lparr>formId = currentId w, values_f = initialValues, defaultValues = dflt,
                      dirty = [], errors = Ref e, state = FState False,
                      validate = default_validate, listeners = [], anyListeners = []\<rparr>
            in Inr (n, w\<lparr>heap := h1, nodes := (nodes w)(n := nd), nnodes := Suc n,
                         currentId := Suc (currentId w)\<rparr>)))"

definition isDirty :: "nat \<Rightarrow> world \<Rightarrow> bool" where
  "isDirty n w =
     (if list_ex (\<lambda>k. map_of (dirty (nodes w n)) k = Some True) (own_keys (dirty (nodes w n)))
      then True
      else if length (object_keys (heap w) (values_f (nodes w n)))
              \<noteq> length (object_keys (heap w) (defaultValues (nodes w n)))
      then True
      else False)"

definition anyError :: "nat \<Rightarrow> world \<Rightarrow> bool" where
  "anyError n w = (length (object_keys (heap w) (errors (nodes w n))) > 0)"

text \<open>The body of the loop of \<open>recalculateDirty\<close>, for one key of \<open>values\<close>.\<close>

definition recalculateDirty_step :: "nat \<Rightarrow> key \<Rightarrow> world \<Rightarrow> world" where
  "recalculateDirty_step n name w =
     (let value = js_get (heap w) (values_f (nodes w n)) name
      in if typeof_object value \<or> isArray (heap w) value then w
         else upd_node n
                (\<lambda>nd. nd\<lparr>dirty := AList.update name
                           (js_get (heap w) (defaultValues nd) name \<noteq> value) (dirty nd)\<rparr>) w)"

definition recalculateDirty :: "nat \<Rightarrow> world \<Rightarrow> world" where
  "recalculateDirty n w =
     fold (recalculateDirty_step n) (object_keys (heap w) (values_f (nodes w n))) w"

text \<open>
  \<open>setValueInternal(key, value, dirty, error?, skipId?)\<close>: first the assignments, then
  the two dispatches. An omitted \<open>error\<close> is \<open>Undefined\<close>, an omitted \<open>skipId\<close> is \<open>None\<close>.
\<close>

definition setValueInternal_store ::
  "nat \<Rightarrow> key \<Rightarrow> val \<Rightarrow> bool \<Rightarrow> val \<Rightarrow> world \<Rightarrow> error + world" where
  "setValueInternal_store n k value drt err w =
     (case set_prop (values_f (nodes w n)) k value (heap w) of Inl e \<Rightarrow> Inl e
      | Inr h1 \<Rightarrow>
     (let w1 = upd_node n (\<lambda>nd. nd\<lparr>dirty := AList.update k drt (dirty nd)\<rparr>) (w\<lparr>heap := h1\<rparr>)
      in if err \<noteq> Undefined then
           (case (if err = Null \<or> length (object_keys (heap w1) err) = 0
                  then delete_prop (errors (nodes w1 n)) k (heap w1)
                  else set_prop (errors (nodes w1 n)) k err (heap w1))
            of Inl e \<Rightarrow> Inl e | Inr h2 \<Rightarrow> Inr (w1\<lparr>heap := h2\<rparr>))
         else
           (let (ev, h2) = validate (nodes w1 n) (values_f (nodes w1 n)) (heap w1)
            in Inr (upd_node n (\<lambda>nd. nd\<lparr>errors := ev\<rparr>) (w1\<lparr>heap := h2\<rparr>)))))"

definition setValueInternal ::
  "runner \<Rightarrow> nat \<Rightarrow> key \<Rightarrow> val \<Rightarrow> bool \<Rightarrow> val \<Rightarrow> nat option \<Rightarrow> world \<Rightarrow> error + world" where
  "setValueInternal rn n k value drt err skipId w =
     (case setValueInternal_store n k value drt err w of Inl e \<Rightarrow> Inl e
      | Inr w2 \<Rightarrow>
          (case fireListener rn n k False skipId w2 of Inl e \<Rightarrow> Inl e
           | Inr w3 \<Rightarrow> fireAnyListeners rn n False skipId w3))"

definition setValue :: "runner \<Rightarrow> nat \<Rightarrow> key \<Rightarrow> val \<Rightarrow> world \<Rightarrow> error + world" where
  "setValue rn n k value w =
     (let w1 = (if (value \<noteq> Null \<and> typeof_object value) \<or> isArray (heap w) value
                then warn (''Do not pass objects to setValue, use setValueInternal instead. '' @
                          ''When passing objects here, they will always be treated as dirty.'') w
                else w)
      in if js_get (heap w1) (values_f (nodes w1 n)) k = value then Inr w1
         else setValueInternal rn n k value
                (js_get (heap w1) (defaultValues (nodes w1 n)) k \<noteq> value) Undefined None w1)"

definition unsetValue :: "runner \<Rightarrow> nat \<Rightarrow> key \<Rightarrow> world \<Rightarrow> error + world" where
  "unsetValue rn n k w =
     (let w1 = upd_node n (\<lambda>nd. nd\<lparr>dirty := AList.delete k (dirty nd)\<rparr>) w
      in case delete_prop (errors (nodes w1 n)) k (heap w1) of Inl e \<Rightarrow> Inl e
         | Inr h2 \<Rightarrow>
             (case fireListener rn n k False None (w1\<lparr>heap := h2\<rparr>) of Inl e \<Rightarrow> Inl e
              | Inr w3 \<Rightarrow> fireAnyListeners rn n False None w3))"



text \<open>
  \<open>setValues(setValues, errors?, isDefault?, state?, skipId?)\<close>: the two guards, the
  assignments, the check of \<open>this.values\<close>, then the dispatches. An omitted \<open>errors\<close> is
  \<open>Undefined\<close>; an omitted \<open>isDefault\<close> is \<open>False\<close> (it is only tested for truth and passed
  on as \<open>isDefault ?? false\<close>); an omitted \<open>state\<close> or \<open>skipId\<close> is \<open>None\<close>.
\<close>

definition setValues_store ::
  "nat \<Rightarrow> val \<Rightarrow> val \<Rightarrow> bool \<Rightarrow> fstate option \<Rightarrow> world \<Rightarrow> error + world" where
  "setValues_store n newValues errs isDefault st w =
     (case
          (if isDefault then
             (case memberCopy newValues (heap w) of Inl e \<Rightarrow> Inl e
              | Inr (v, h1) \<Rightarrow>
                  Inr (upd_node n (\<lambda>nd. nd\<lparr>defaultValues := newValues, values_f := v, dirty := []\<rparr>)
                         (w\<lparr>heap := h1\<rparr>)))
           else Inr (upd_node n (\<lambda>nd. nd\<lparr>values_f := newValues\<rparr>) w))
        of Inl e \<Rightarrow> Inl e
         | Inr w1 \<Rightarrow>
        (let w2 = (if errs \<noteq> Undefined then upd_node n (\<lambda>nd. nd\<lparr>errors := errs\<rparr>) w1
                   else (let (ev, h2) = validate (nodes w1 n) (values_f (nodes w1 n)) (heap w1)
                         in upd_node n (\<lambda>nd. nd\<lparr>errors := ev\<rparr>) (w1\<lparr>heap := h2\<rparr>)))
         in Inr (case st of Some s \<Rightarrow> upd_node n (\<lambda>nd. nd\<lparr>state := s\<rparr>) w2 | None \<Rightarrow> w2)))"

definition setValues ::
  "runner \<Rightarrow> nat \<Rightarrow> val \<Rightarrow> val \<Rightarrow> bool \<Rightarrow> fstate option \<Rightarrow> nat option \<Rightarrow> world \<Rightarrow> error + world" where
  "setValues rn n newValues errs isDefault st skipId w =
     (if errs = Null then Inl (Thrown ''errors is null, use undefined to not set any errors'')
      else if \<not> truthy newValues then Inl (Thrown ''setValues is undefined'')
      else case setValues_store n newValues errs isDefault st w of Inl e \<Rightarrow> Inl e
         | Inr w3 \<Rightarrow>
            if \<not> truthy (values_f (nodes w3 n))
            then Inl (Thrown ''this.values is null after setValues'')
            else (case fireAllNormalListeners rn n isDefault skipId w3 of Inl e \<Rightarrow> Inl e
                  | Inr w4 \<Rightarrow> fireAnyListeners rn n True skipId (recalculateDirty n w4)))"


section \<open>Running callbacks\<close>

text \<open>
  A listener may call a setter of the same or of another node, which fires listeners in
  turn; nothing in the class bounds this. The interpreter therefore counts nested
  dispatches: \<open>run f\<close> runs a callback whose own dispatches nest at most \<open>f - 1\<close> deep, and
  answers \<open>OutOfFuel\<close> beyond. A result \<open>Inr\<close> is a run that has returned.

  \<open>PushDown\<close> is the parent's per-key listener of \<open>useChildForm\<close>, \<open>PushUp\<close> the child's
  any-change listener.
\<close>

primrec run :: "nat \<Rightarrow> callback \<Rightarrow> bool \<Rightarrow> world \<Rightarrow> error + world" where
  "run 0 = (\<lambda>cb arg w. Inl OutOfFuel)"
| "run (Suc f) = (\<lambda>cb arg w. case cb of
       Render \<Rightarrow> Inr w
     | PushDown p c name cid \<Rightarrow>
         (let ev = js_get (heap w) (errors (nodes w p)) name;
              (errs, h1) = (if nullish ev
                            then (let (a, h') = alloc (JObj ObjectK []) (heap w) in (Ref a, h'))
                            else (ev, heap w))
          in setValues (run f) c (js_get (heap w) (values_f (nodes w p)) name) errs arg
               (Some (state (nodes w p))) cid (w\<lparr>heap := h1\<rparr>))
     | PushUp p c name pid \<Rightarrow>
         setValueInternal (run f) p name (values_f (nodes w c)) (isDirty c w)
           (errors (nodes w c)) (Some pid) w
     | CallIgnore n k i \<Rightarrow> Inr (ignore n k i w)
     | CallIgnoreAny n i \<Rightarrow> Inr (ignoreAny n i w)
     | CallListen n k cb' \<Rightarrow> Inr (snd (listen n k cb' w))
     | CallListenAny n cb' \<Rightarrow> Inr (snd (listenAny n cb' w)))"

section \<open>The composition layer\<close>

text \<open>The first render of \<open>useChildForm\<close>: the child node is constructed.\<close>

definition useChildForm_new :: "nat \<Rightarrow> key \<Rightarrow> world \<Rightarrow> error + (nat \<times> world)" where
  "useChildForm_new parent name w =
     (case memberCopy (js_get (heap w) (values_f (nodes w parent)) name) (heap w) of
        Inl e \<Rightarrow> Inl e
      | Inr (v, h1) \<Rightarrow>
          (let d = js_get h1 (defaultValues (nodes w parent)) name
           in newFormState v
                (if nullish d then js_get h1 (values_f (nodes w parent)) name else d)
                (w\<lparr>heap := h1\<rparr>)))"

text \<open>
  The effect of \<open>useChildForm\<close>: both subscriptions are registered, the closure variable
  \<open>id\<close> of the parent's listener receives the child's subscription id, and the child is
  loaded from the parent. The result is the pair \<open>(parentId, id)\<close>.
\<close>

definition useChildForm_effect ::
  "runner \<Rightarrow> nat \<Rightarrow> nat \<Rightarrow> key \<Rightarrow> world \<Rightarrow> error + ((nat \<times> nat) \<times> world)" where
  "useChildForm_effect rn parent child name w =
     (let (parentId, w1) = listen parent name (PushDown parent child name None) w;
          (cid, w2) = listenAny child (PushUp parent child name parentId) w1;
          w3 = upd_node parent
                 (\<lambda>nd. nd\<lparr>listeners := AList.update name
                            (AList.update parentId (PushDown parent child name (Some cid))
                               (settersOf w2 parent name)) (listeners nd)\<rparr>) w2
      in case memberCopy (js_get (heap w3) (values_f (nodes w3 parent)) name) (heap w3) of
           Inl e \<Rightarrow> Inl e
         | Inr (v, h4) \<Rightarrow>
             (case setValues rn child v (js_get h4 (errors (nodes w3 parent)) name) False
                     None None (w3\<lparr>heap := h4\<rparr>) of
                Inl e \<Rightarrow> Inl e
              | Inr w5 \<Rightarrow> Inr ((parentId, cid), w5)))"

definition useChildForm_cleanup ::
  "runner \<Rightarrow> nat \<Rightarrow> nat \<Rightarrow> key \<Rightarrow> nat \<Rightarrow> nat \<Rightarrow> world \<Rightarrow> error + world" where
  "useChildForm_cleanup rn parent child name parentId cid w =
     unsetValue rn parent name (ignore parent name parentId (ignoreAny child cid w))"

section \<open>Sequence mutators\<close>

definition digit_char :: "nat \<Rightarrow> char" where
  "digit_char n = ''0123456789'' ! (n mod 10)"

fun dec :: "nat \<Rightarrow> string" where
  "dec n = (if n < 10 then [digit_char n] else dec (n div 10) @ [digit_char (n mod 10)])"

text \<open>A number used as a property key: an index, or the string of a negative number.\<close>

definition key_of_int :: "int \<Rightarrow> key" where
  "key_of_int i = (if 0 \<le> i then Idx (nat i) else Name (CHR ''-'' # dec (nat (- i))))"

text \<open>\<open>xs.splice(index, 1)\<close>: a negative start counts from the end.\<close>

definition splice1 :: "int \<Rightarrow> 'a list \<Rightarrow> 'a list" where
  "splice1 index xs =
     (let len = int (length xs);
          start = (if index < 0 then max (len + index) 0 else min index len);
          deleteCount = min 1 (len - start)
      in take (nat start) xs @ drop (nat (start + deleteCount)) xs)"

definition append :: "runner \<Rightarrow> nat \<Rightarrow> val \<Rightarrow> world \<Rightarrow> error + world" where
  "append rn form value w = (case values_f (nodes w form) of
       Ref a \<Rightarrow>
         (if okind (cells (heap w) a) = ArrayK
          then (let (b, h1) = alloc (array_of (elems (cells (heap w) a) @ [value])) (heap w)
                in setValues rn form (Ref b) Undefined False None None (w\<lparr>heap := h1\<rparr>))
          else Inl (TypeError ''form.values is not iterable''))
     | _ \<Rightarrow> Inl (TypeError ''form.values is not iterable''))"

definition remove :: "runner \<Rightarrow> nat \<Rightarrow> int \<Rightarrow> world \<Rightarrow> error + world" where
  "remove rn form index w = (case values_f (nodes w form) of
       Ref a \<Rightarrow>
         (if okind (cells (heap w) a) = ArrayK
          then (let (newValues, h1) = alloc (array_of (elems (cells (heap w) a))) (heap w);
                    h2 = h1\<lparr>cells := (cells h1)
                           (newValues := array_of (splice1 index (elems (cells h1 newValues))))\<rparr>;
                    (newErrors, h3) =
                       alloc (JObj ObjectK (spread_props h2 (errors (nodes w form)))) h2
                in case delete_prop (Ref newErrors) (key_of_int index) h3 of Inl e \<Rightarrow> Inl e
                   | Inr h4 \<Rightarrow>
                       setValues rn form (Ref newValues) (Ref newErrors) False None None
                         (w\<lparr>heap := h4\<rparr>))
          else Inl (TypeError ''form.values is not iterable''))
     | _ \<Rightarrow> Inl (TypeError ''form.values is not iterable''))"

definition clear :: "runner \<Rightarrow> nat \<Rightarrow> world \<Rightarrow> error + world" where
  "clear rn form w =
     (let (vs, h1) = alloc (array_of []) (heap w);
          (es, h2) = alloc (JObj ObjectK []) h1
      in setValues rn form (Ref vs) (Ref es) False None None (w\<lparr>heap := h2\<rparr>))"

section \<open>Observations and example worlds\<close>

text \<open>\<open>logged evs w\<close> is \<open>w\<close> after the listener invocations \<open>evs\<close> have been recorded.\<close>

definition logged :: "(nat \<times> bool) list \<Rightarrow> world \<Rightarrow> world" where
  "logged evs w = w\<lparr>calls := calls w @ evs\<rparr>"

text \<open>The invocations of one dispatch over the ids \<open>ids\<close> with argument \<open>b\<close>.\<close>

definition fired :: "nat list \<Rightarrow> bool \<Rightarrow> nat option \<Rightarrow> (nat \<times> bool) list" where
  "fired ids b skipId = map (\<lambda>i. (i, b)) (filter (\<lambda>i. Some i \<noteq> skipId) ids)"


text \<open>A node all of whose subscribers are user-interface bindings.\<close>

definition render_map :: "(nat \<times> callback) list \<Rightarrow> bool" where
  "render_map m = list_all (\<lambda>p. snd p = Render) m"

definition render_only :: "nat \<Rightarrow> world \<Rightarrow> bool" where
  "render_only n w = (list_all (\<lambda>p. render_map (snd p)) (listeners (nodes w n))
                      \<and> render_map (anyListeners (nodes w n)))"



definition is_primitive :: "val \<Rightarrow> bool" where
  "is_primitive v = (case v of Ref a \<Rightarrow> False | _ \<Rightarrow> True)"

text \<open>
  An example: one node over \<open>{a: 1, b: 2}\<close> with the same defaults, one binding on each
  field and one any-change binding.
\<close>

definition blank_node :: node where
  "blank_node = \<lparr>formId = 0, values_f = Undefined, defaultValues = Undefined, dirty = [],
     errors = Undefined, state = FState False, validate = default_validate,
     listeners = [], anyListeners = []\<rparr>"

definition ex_heap :: heap where
  "ex_heap = \<lparr>cells = (\<lambda>a. JObj ObjectK [])
       (0 := JObj ObjectK [(Name ''a'', Num 1), (Name ''b'', Num 2)],
        1 := JObj ObjectK [(Name ''a'', Num 1), (Name ''b'', Num 2)]),
     top = 3\<rparr>"

definition ex_node :: node where
  "ex_node = \<lparr>formId = 0, values_f = Ref 1, defaultValues = Ref 0, dirty = [],
     errors = Ref 2, state = FState False, validate = default_validate,
     listeners = [(Name ''a'', [(1, Render)]), (Name ''b'', [(2, Render)])],
     anyListeners = [(3, Render)]\<rparr>"

definition ex_world :: world where
  "ex_world = \<lparr>heap = ex_heap, nodes = (\<lambda>n. blank_node)(0 := ex_node), nnodes = 1,
     currentId = 4, console = [], calls = []\<rparr>"

text \<open>
  An example for the sequence mutators: a node over \<open>[10, 20, 30]\<close> with errors at the
  indices 1 and 2.
\<close>

definition ex_array_heap :: heap where
  "ex_array_heap = \<lparr>cells = (\<lambda>a. JObj ObjectK [])
       (0 := array_of [Num 10, Num 20, Num 30],
        1 := JObj ObjectK [(Idx 1, Str ''bad''), (Idx 2, Str ''worse'')]),
     top = 2\<rparr>"

definition ex_array_world :: world where
  "ex_array_world = \<lparr>heap = ex_array_heap,
     nodes = (\<lambda>n. blank_node)
       (0 := blank_node\<lparr>values_f := Ref 0, defaultValues := Ref 0, errors := Ref 1\<rparr>),
     nnodes = 1, currentId = 1, console = [], calls = []\<rparr>"

text \<open>
  An example for re-entrant unregistration: the first listener on field \<open>a\<close> unregisters
  the second one, \<open>form.ignore("a", "2")\<close>.
\<close>

definition ex_unsub_world :: world where
  "ex_unsub_world = ex_world\<lparr>nodes := (\<lambda>n. blank_node)
     (0 := ex_node\<lparr>listeners := [(Name ''a'', [(1, CallIgnore 0 (Name ''a'') 2), (2, Render)])]\<rparr>)\<rparr>"













definition keys_render :: "nat \<Rightarrow> world \<Rightarrow> bool" where
  "keys_render n w = list_all (\<lambda>p. render_map (snd p)) (listeners (nodes w n))"

definition node_ids :: "world \<Rightarrow> nat \<Rightarrow> nat list" where
  "node_ids w n = concat (map (\<lambda>q. map fst (snd q)) (listeners (nodes w n)))
                  @ map fst (anyListeners (nodes w n))"


definition ex_start_world :: world where
  "ex_start_world = \<lparr>heap = \<lparr>cells = (\<lambda>a. JObj ObjectK [])
         (0 := array_of [Num 1, Num 2, Num 3], 1 := JObj ObjectK [(Name ''list'', Ref 0)]),
       top = 2\<rparr>,
     nodes = (\<lambda>n. blank_node), nnodes = 0, currentId = 0, console = [], calls = []\<rparr>"

definition ex_wiring :: "error + ((nat \<times> nat) \<times> world)" where
  "ex_wiring =
     (case memberCopy (Ref 1) (heap ex_start_world) of Inl e \<Rightarrow> Inl e
      | Inr (v, h) \<Rightarrow>
     (case newFormState v (Ref 1) (ex_start_world\<lparr>heap := h\<rparr>) of Inl e \<Rightarrow> Inl e
      | Inr (p, w1) \<Rightarrow>
     (let w2 = snd (listenAny p Render (snd (listen p (Name ''list'') Render w1)))
      in case useChildForm_new p (Name ''list'') w2 of Inl e \<Rightarrow> Inl e
      | Inr (c, w3) \<Rightarrow>
          useChildForm_effect (run (Suc (Suc 0))) p c (Name ''list'') (snd (listen c (Idx 0) Render w3)))))"

definition ex_edge_world :: world where
  "ex_edge_world = \<lparr>heap = \<lparr>cells = (\<lambda>a. JObj ObjectK [])
         (0 := array_of [Num 1, Num 2, Num 3],
          1 := JObj ObjectK [(Name ''list'', Ref 0)],
          2 := JObj ObjectK [(Name ''list'', Ref 6)],
          4 := array_of [Num 1, Num 2, Num 3],
          6 := array_of [Num 1, Num 2, Num 3]),
       top = 8\<rparr>,
     nodes = (\<lambda>n. blank_node)
       (0 := \<lparr>formId = 0, values_f = Ref 2, defaultValues = Ref 1,
              dirty = [(Name ''list'', False)], errors = Ref 3, state = FState False,
              validate = default_validate,
              listeners = [(Name ''list'', [(1, Render), (5, PushDown 0 1 (Name ''list'') (Some 6))])],
              anyListeners = [(2, Render)]\<rparr>,
        1 := \<lparr>formId = 3, values_f = Ref 6, defaultValues = Ref 0,
              dirty = [(Idx 0, False), (Idx 1, False), (Idx 2, False)], errors = Ref 7,
              state = FState False, validate = default_validate,
              listeners = [(Idx 0, [(4, Render)])],
              anyListeners = [(6, PushUp 0 1 (Name ''list'') 5)]\<rparr>),
     nnodes = 2, currentId = 7, console = [],
     calls = [(4, False), (6, True), (1, False), (2, False)]\<rparr>"

section \<open>Properties\<close>

declare run.simps [simp del]

subsection \<open>Basic facts about worlds\<close>

lemma logged_Nil [simp]: "logged [] w = w"
  by (simp add: logged_def)

lemma logged_logged [simp]: "logged ys (logged xs w) = logged (xs @ ys) w"
  by (simp add: logged_def)

lemma logged_sel [simp]:
  "nodes (logged evs w) = nodes w" "heap (logged evs w) = heap w"
  "currentId (logged evs w) = currentId w" "console (logged evs w) = console w"
  "nnodes (logged evs w) = nnodes w" "calls (logged evs w) = calls w @ evs"
  by (simp_all add: logged_def)

lemma upd_node_sel [simp]:
  "heap (upd_node n g w) = heap w" "calls (upd_node n g w) = calls w"
  "currentId (upd_node n g w) = currentId w" "console (upd_node n g w) = console w"
  "nnodes (upd_node n g w) = nnodes w"
  "nodes (upd_node n g w) m = (if m = n then g (nodes w n) else nodes w m)"
  by (simp_all add: upd_node_def)


lemma upd_node_logged: "upd_node n g (logged evs w) = logged evs (upd_node n g w)"
  by (simp add: upd_node_def logged_def)

lemma settersOf_logged [simp]: "settersOf (logged evs w) n k = settersOf w n k"
  by (simp add: settersOf_def)

subsection \<open>Dispatch to user-interface bindings\<close>







lemma render_only_logged [simp]: "render_only n (logged evs w) = render_only n w"
  by (simp add: render_only_def)

lemma render_only_heap [simp]: "render_only n (w\<lparr>heap := h\<rparr>) = render_only n w"
  by (simp add: render_only_def)




subsection \<open>The dirty map after a bulk replace\<close>




subsection \<open>The assignments of the setters\<close>





lemmas ex_defs = ex_world_def ex_heap_def ex_node_def blank_node_def

subsection \<open>Objects, keys and copies\<close>

lemma set_idx_keys: "set (idx_keys ps) = {i. Idx i \<in> fst ` set ps}"
  by (induction ps rule: idx_keys.induct) auto

lemma set_name_keys: "set (name_keys ps) = {k. k \<in> fst ` set ps \<and> (\<exists>s. k = Name s)}"
  by (induction ps rule: name_keys.induct) auto

lemma set_own_keys: "set (own_keys ps) = fst ` set ps"
proof -
  have "\<And>k. k \<in> set (own_keys ps) \<longleftrightarrow> k \<in> fst ` set ps"
  proof -
    fix k show "k \<in> set (own_keys ps) \<longleftrightarrow> k \<in> fst ` set ps"
      by (cases k) (auto simp: own_keys_def set_idx_keys set_name_keys)
  qed
  then show ?thesis by blast
qed

lemma map_of_tabulate:
  "map_of (map (\<lambda>k. (k, g k)) ks) k = (if k \<in> set ks then Some (g k) else None)"
  by (induction ks) auto

lemma js_get_absent:
  "k \<notin> fst ` set (props (cells h a)) \<Longrightarrow> js_get h (Ref a) k = Undefined"
  by (simp add: js_get_def map_of_eq_None_iff[THEN iffD2])




lemma map_of_array_of:
  "map_of (props (array_of xs)) k
     = (case k of Idx i \<Rightarrow> if i < length xs then Some (xs ! i) else None | Name s \<Rightarrow> None)"
proof (cases k)
  case (Idx i)
  show ?thesis
  proof (cases "i < length xs")
    case True
    have "map_of (zip (map Idx [0..<length xs]) xs) (map Idx [0..<length xs] ! i) = Some (xs ! i)"
      using True by (intro map_of_zip_nth) (auto simp: distinct_map inj_on_def)
    then have "map_of (zip (map Idx [0..<length xs]) xs) (Idx i) = Some (xs ! i)"
      using True by simp
    then show ?thesis using Idx True by (simp add: array_of_def)
  next
    case False
    then have "Idx i \<notin> set (map Idx [0..<length xs])" by auto
    then have "map_of (zip (map Idx [0..<length xs]) xs) (Idx i) = None"
      by (simp add: map_of_zip_is_None)
    then show ?thesis using Idx False by (simp add: array_of_def)
  qed
next
  case (Name s)
  have "Name s \<notin> set (map Idx [0..<length xs])" by auto
  then have "map_of (zip (map Idx [0..<length xs]) xs) (Name s) = None"
    by (simp add: map_of_zip_is_None)
  then show ?thesis using Name by (simp add: array_of_def)
qed

lemma length_elems [simp]: "length (elems ob) = array_length (props ob)"
  by (simp add: elems_def)

lemma elems_nth:
  "i < array_length (props ob) \<Longrightarrow>
   elems ob ! i = (case map_of (props ob) (Idx i) of Some x \<Rightarrow> x | None \<Rightarrow> Undefined)"
  by (simp add: elems_def)





lemma object_keys_Ref [simp]: "set (object_keys h (Ref a)) = fst ` set (props (cells h a))"
  by (simp add: object_keys_def set_own_keys)



lemmas run_defs = run.simps invoke_def fireListener_def fireAnyListeners_def
  fireAllNormalListeners_def settersOf_def listener_ids_def object_keys_def own_keys_def
  js_get_def recalculateDirty_def recalculateDirty_step_def typeof_object_def isArray_def
  upd_node_def alloc_def truthy_def nullish_def Let_def

lemma idx_keys_zip:
  "length ns = length ys \<Longrightarrow> idx_keys (zip (map Idx ns) ys) = ns"
  by (induction ns ys rule: list_induct2) auto

lemma fold_max_Suc_upt: "fold max (map Suc [0..<n]) 0 = n"
  by (induction n) auto

lemma array_length_array_of [simp]: "array_length (props (array_of ys)) = length ys"
  by (simp add: array_length_def array_of_def idx_keys_zip fold_max_Suc_upt)

lemma elems_array_of [simp]: "elems (array_of ys) = ys"
  by (rule nth_equalityI) (simp_all add: elems_nth map_of_array_of)

lemma splice1_in_range:
  assumes "0 \<le> index" and "nat index < length xs"
  shows "splice1 index xs = take (nat index) xs @ drop (Suc (nat index)) xs"
proof -
  have lt: "index < int (length xs)" using assms by linarith
  then have m: "min index (int (length xs)) = index" by simp
  have d: "min 1 (int (length xs) - index) = 1" using lt by simp
  have "nat (index + 1) = Suc (nat index)" using assms(1) by simp
  then show ?thesis using assms(1) lt by (simp add: splice1_def m d)
qed

lemma map_of_spread_props:
  "map_of (spread_props h (Ref e)) k = map_of (props (cells h e)) k"
proof (cases "k \<in> fst ` set (props (cells h e))")
  case True
  then obtain x where "map_of (props (cells h e)) k = Some x"
    by (metis domD dom_map_of_conv_image_fst)
  then show ?thesis using True
    by (simp add: spread_props_def object_keys_def map_of_tabulate set_own_keys js_get_def)
next
  case False
  then have "map_of (props (cells h e)) k = None" by (simp add: map_of_eq_None_iff)
  then show ?thesis using False
    by (simp add: spread_props_def object_keys_def map_of_tabulate set_own_keys)
qed

subsection \<open>Subscription ids\<close>







subsection \<open>The error map invariant\<close>





lemma set_prop_Ref:
  "set_prop (Ref a) k x h
     = Inr (h\<lparr>cells := (cells h)(a := JObj (okind (cells h a)) (AList.update k x (props (cells h a))))\<rparr>)"
  by (simp add: set_prop_def)











lemma warn_sel [simp]:
  "nodes (warn m w) = nodes w" "heap (warn m w) = heap w" "calls (warn m w) = calls w"
  "currentId (warn m w) = currentId w"
  by (simp_all add: warn_def)

lemma render_only_warn [simp]: "render_only n (warn m w) = render_only n w"
  by (simp add: render_only_def)




















subsection \<open>Dispatch across a composition edge\<close>








lemma keys_render_logged [simp]: "keys_render n (logged evs w) = keys_render n w"
  by (simp add: keys_render_def)





lemma set_listener_ids [simp]: "set (listener_ids m) = fst ` set m"
  by (simp add: listener_ids_def)



lemma map_fst_fired_None [simp]: "map fst (fired ids b None) = ids"
  by (simp add: fired_def comp_def)

lemma node_ids_heap [simp]: "node_ids (x\<lparr>heap := h\<rparr>) n = node_ids x n"
  by (simp add: node_ids_def)




lemma isDirty_logged [simp]: "isDirty c (logged evs w) = isDirty c w"
  by (simp add: isDirty_def)















lemma ex_wiring_result: "ex_wiring = Inr ((5, 6), ex_edge_world)"
  unfolding ex_wiring_def ex_start_world_def ex_edge_world_def
  by (simp add: memberCopy_def newFormState_def listen_def listenAny_def useChildForm_new_def
      useChildForm_effect_def setValues_def setValues_store_def setValueInternal_def
      setValueInternal_store_def set_prop_def delete_prop_def isDirty_def default_validate_def
      spread_props_def elems_def array_length_def blank_node_def array_of_def
      run_defs fun_eq_iff)







subsection \<open>Claims\<close>

text \<open>
  C5. The claim: passing \<open>null\<close> as the error payload of \<open>setValues\<close> is logged as a
  warning and execution continues. The code raises instead: the first statement of
  \<open>setValues\<close> throws an \<open>Error\<close> when \<open>errors === null\<close>, so the call never returns
  normally, whatever the node, the values and the other arguments are.
\<close>

theorem setValues_null_errors_throws:
  "setValues rn n v Null isDefault st skipId w
     = Inl (Thrown ''errors is null, use undefined to not set any errors'')"
  by (simp add: setValues_def)

theorem setValues_null_errors_counterexample:
  "setValues (run 1) 0 (Ref 0) Null False None None ex_world
     = Inl (Thrown ''errors is null, use undefined to not set any errors'')"
  by (simp add: setValues_def)



text \<open>
  C7. \<open>setValue(k, v)\<close> with a primitive \<open>v\<close> that is strictly equal to the stored
  \<open>values[k]\<close> returns at once: the world is unchanged, so no listener was called, nothing
  was logged, and \<open>values\<close>, \<open>dirty\<close> and \<open>errors\<close> are as before.
\<close>

theorem setValue_same_primitive_noop:
  "is_primitive v \<Longrightarrow> js_get (heap w) (values_f (nodes w n)) k = v \<Longrightarrow>
   setValue rn n k v w = Inr w"
  by (cases v) (simp_all add: setValue_def is_primitive_def typeof_object_def isArray_def)

theorem setValue_same_primitive_noop_witness:
  "is_primitive (Num 1) \<and> js_get (heap ex_world) (values_f (nodes ex_world 0)) (Name ''a'') = Num 1
   \<and> setValue (run 1) 0 (Name ''a'') (Num 1) ex_world = Inr ex_world"
proof -
  have p: "is_primitive (Num 1)" by (simp add: is_primitive_def)
  have g: "js_get (heap ex_world) (values_f (nodes ex_world 0)) (Name ''a'') = Num 1"
    by (simp add: js_get_def ex_defs)
  from setValue_same_primitive_noop[OF p g, of "run 1"] p g show ?thesis by simp
qed





text \<open>
  C8. For a node whose \<open>values\<close> is an array and an index inside it, \<open>remove(index)\<close> is
  one call of \<open>setValues\<close> with two new objects: a new array, which is the old sequence
  without the element at \<open>index\<close>, and a new error map, which reads \<open>undefined\<close> at
  \<open>index\<close> and like the old error map at every other key (so the entries at higher
  indices keep their keys). No object that existed before the call is changed; in
  particular the previous \<open>values\<close> array is not mutated.
\<close>

theorem remove_builds_new_sequence:
  assumes v: "values_f (nodes w form) = Ref a" and k: "okind (cells (heap w) a) = ArrayK"
    and e: "errors (nodes w form) = Ref e"
    and al: "a < top (heap w)" "e < top (heap w)"
    and i: "0 \<le> index" "nat index < length (elems (cells (heap w) a))"
  shows "\<exists>h4. remove rn form index w
           = setValues rn form (Ref (top (heap w))) (Ref (Suc (top (heap w)))) False None None
               (w\<lparr>heap := h4\<rparr>)
     \<and> cells h4 (top (heap w))
         = array_of (take (nat index) (elems (cells (heap w) a))
                     @ drop (Suc (nat index)) (elems (cells (heap w) a)))
     \<and> (\<forall>k. js_get h4 (Ref (Suc (top (heap w)))) k
              = (if k = Idx (nat index) then Undefined else js_get (heap w) (Ref e) k))
     \<and> okind (cells h4 (Suc (top (heap w)))) = ObjectK
     \<and> (\<forall>b. b < top (heap w) \<longrightarrow> cells h4 b = cells (heap w) b)"
proof -
  define t where "t = top (heap w)"
  define xs where "xs = elems (cells (heap w) a)"
  define h4 where "h4 = (heap w)\<lparr>cells := (cells (heap w))
      (t := array_of (take (nat index) xs @ drop (Suc (nat index)) xs),
       Suc t := JObj ObjectK (AList.delete (Idx (nat index)) (spread_props (heap w) (Ref e)))),
      top := Suc (Suc t)\<rparr>"
  have ne: "a \<noteq> t" "e \<noteq> t" "e \<noteq> Suc t" using al by (auto simp: t_def)
  have sp: "\<And>h'. cells h' e = cells (heap w) e \<Longrightarrow> spread_props h' (Ref e) = spread_props (heap w) (Ref e)"
    by (simp add: spread_props_def object_keys_def js_get_def)
  have c1: "cells (heap w) a = cells (heap w) a" by simp
  have rem: "remove rn form index w
      = setValues rn form (Ref t) (Ref (Suc t)) False None None (w\<lparr>heap := h4\<rparr>)"
  proof -
    define h1 where "h1 = snd (alloc (array_of xs) (heap w))"
    define h2 where "h2 = h1\<lparr>cells := (cells h1)(t := array_of (splice1 index (elems (cells h1 t))))\<rparr>"
    define h3 where "h3 = snd (alloc (JObj ObjectK (spread_props h2 (Ref e))) h2)"
    have a1: "alloc (array_of xs) (heap w) = (t, h1)" by (simp add: alloc_def t_def h1_def)
    have "cells h1 t = array_of xs" by (simp add: h1_def alloc_def t_def)
    then have el: "elems (cells h1 t) = xs" by simp
    have sp1: "splice1 index xs = take (nat index) xs @ drop (Suc (nat index)) xs"
      using i by (simp add: splice1_in_range xs_def)
    have t2: "top h2 = Suc t" by (simp add: h2_def h1_def alloc_def t_def)
    have a3: "alloc (JObj ObjectK (spread_props h2 (Ref e))) h2 = (Suc t, h3)"
      by (simp add: alloc_def t2 h3_def)
    have "cells h2 e = cells (heap w) e" using ne by (simp add: h2_def h1_def alloc_def t_def)
    then have sp2: "spread_props h2 (Ref e) = spread_props (heap w) (Ref e)" by (rule sp)
    have c3: "cells h3 (Suc t) = JObj ObjectK (spread_props (heap w) (Ref e))"
      by (simp add: h3_def alloc_def t2 sp2)
    have d: "delete_prop (Ref (Suc t)) (key_of_int index) h3 = Inr h4"
      using i(1) c3
      by (simp add: delete_prop_def key_of_int_def h4_def h3_def h2_def el sp1 sp2 alloc_def)
         (simp add: h1_def alloc_def t_def)
    show ?thesis
      using v k e
      by (simp add: remove_def xs_def[symmetric] a1 h2_def[symmetric] a3 d)
  qed
  have get: "\<And>k. js_get h4 (Ref (Suc t)) k
              = (if k = Idx (nat index) then Undefined else js_get (heap w) (Ref e) k)"
  proof -
    fix k
    have "map_of (spread_props (heap w) (Ref e)) k = map_of (props (cells (heap w) e)) k"
      by (rule map_of_spread_props)
    then show "js_get h4 (Ref (Suc t)) k
              = (if k = Idx (nat index) then Undefined else js_get (heap w) (Ref e) k)"
      by (simp add: js_get_def h4_def delete_conv')
  qed
  show ?thesis
    apply (rule exI[of _ h4])
    unfolding t_def[symmetric] xs_def[symmetric]
    apply (intro conjI)
        apply (rule rem)
       apply (simp add: h4_def)
      apply (simp add: get)
     apply (simp add: h4_def)
    apply (simp add: h4_def t_def)
    done
qed


theorem remove_builds_new_sequence_witness:
  "values_f (nodes ex_array_world 0) = Ref 0 \<and> okind (cells (heap ex_array_world) 0) = ArrayK
   \<and> errors (nodes ex_array_world 0) = Ref 1
   \<and> 0 < top (heap ex_array_world) \<and> 1 < top (heap ex_array_world)
   \<and> (0::int) \<le> 1 \<and> nat 1 < length (elems (cells (heap ex_array_world) 0))
   \<and> (\<exists>h4. remove (run 1) 0 1 ex_array_world
           = setValues (run 1) 0 (Ref 2) (Ref 3) False None None (ex_array_world\<lparr>heap := h4\<rparr>)
       \<and> cells h4 2 = array_of [Num 10, Num 30]
       \<and> js_get h4 (Ref 3) (Idx 1) = Undefined
       \<and> js_get h4 (Ref 3) (Idx 2) = Str ''worse''
       \<and> cells h4 0 = array_of [Num 10, Num 20, Num 30])"
proof -
  have v: "values_f (nodes ex_array_world 0) = Ref 0"
    and k: "okind (cells (heap ex_array_world) 0) = ArrayK"
    and e: "errors (nodes ex_array_world 0) = Ref 1"
    and al: "0 < top (heap ex_array_world)" "1 < top (heap ex_array_world)"
    and t: "top (heap ex_array_world) = 2"
    and c0: "cells (heap ex_array_world) 0 = array_of [Num 10, Num 20, Num 30]"
    and g: "js_get (heap ex_array_world) (Ref 1) (Idx 2) = Str ''worse''"
    by (simp_all add: ex_array_world_def ex_array_heap_def blank_node_def array_of_def js_get_def)
  have i: "(0::int) \<le> 1" "nat 1 < length (elems (cells (heap ex_array_world) 0))"
    by (simp_all add: c0)
  from remove_builds_new_sequence[OF v k e al i, of "run 1"] obtain h4 where
    "remove (run 1) 0 1 ex_array_world
       = setValues (run 1) 0 (Ref 2) (Ref 3) False None None (ex_array_world\<lparr>heap := h4\<rparr>)"
    "cells h4 2 = array_of [Num 10, Num 30]"
    "\<forall>k. js_get h4 (Ref 3) k
              = (if k = Idx (nat 1) then Undefined else js_get (heap ex_array_world) (Ref 1) k)"
    "\<forall>b. b < 2 \<longrightarrow> cells h4 b = cells (heap ex_array_world) b"
    by (auto simp: t c0 numeral_2_eq_2 numeral_3_eq_3)
  then show ?thesis using v k e al i g c0 by auto
qed

text \<open>
  C4. The claim: a dispatch delivers to the subscriptions registered at its start, and an
  unregistration made by a callback during the dispatch neither changes nor breaks it.
  \<open>fireListener\<close> does snapshot the ids (\<open>Object.keys\<close>), but it calls \<open>listeners[id]\<close>
  through the live map: once an earlier callback has unregistered a later id, the entry is
  \<open>undefined\<close> and the call raises a \<open>TypeError\<close>, which ends the dispatch and the setter
  that started it. Here the first listener on \<open>a\<close> unregisters the second, and
  \<open>setValue("a", 5)\<close> is called.
\<close>

theorem unregister_during_dispatch_breaks:
  "setValue (run 1) 0 (Name ''a'') (Num 5) ex_unsub_world
     = Inl (TypeError ''listeners[id] is not a function'')"
  by (simp add: ex_unsub_world_def setValue_def setValueInternal_def setValueInternal_store_def
      set_prop_def default_validate_def ignore_def run_defs ex_defs)











end
